theory Spec2Isabelle
  imports Main "HOL-Library.Word" "HOL-Library.Multiset"
begin

section \<open>The committee scheduler API (go/scheduler/api/api.go)\<close>

text \<open>
  A shallow embedding of the scheduler API package. Conventions:
  \<^item> Go's fixed-width integers are words: \<open>uint8\<close> is \<open>8 word\<close>, \<open>uint64\<close> and
    \<open>int64\<close> are \<open>64 word\<close> (read with \<open>unat\<close> and \<open>sint\<close>); \<open>++\<close> wraps.
  \<^item> A Go function returning \<open>(T, error)\<close> returns \<open>error + T\<close>, \<open>Inl\<close> being the
    error. Runtime panics the function bodies can raise (integer division by zero,
    index out of range) are constructors of the same \<open>error\<close> type, so that each is
    a branch of the model.
  \<^item> A method with a pointer receiver that assigns through it takes the old value of
    the receiver and returns the new one beside the error.
  \<^item> A pointer that the code dereferences without a nil test (\<open>*Committee\<close>,
    \<open>*CommitteeNode\<close>, \<open>*Quantity\<close>) is identified with the value it points to;
    a pointer the code tests against nil (\<open>*int\<close> in the parameter changes) is an
    \<open>option\<close>.
  \<^item> A Go slice holds at most \<open>2 ^ 63 - 1\<close> elements (its length is an \<open>int\<close>); HOL
    lists are unbounded, so theorems about the loops over \<open>Members\<close> carry that
    bound as a hypothesis.
\<close>

type_synonym uint8 = "8 word"
type_synonym uint64 = "64 word"
type_synonym int64 = "64 word"

subsection \<open>Types declared outside the package\<close>

text \<open>
  Modelled from the spec: the declarations of \<open>signature.PublicKey\<close>,
  \<open>common.Namespace\<close>, \<open>beacon.EpochTime\<close> and \<open>quantity.Quantity\<close> are not among
  the sources. In the spec public keys and runtime identifiers are opaque values told
  apart by their bytes, an epoch is a number and a quantity is an arbitrary-precision
  non-negative integer. Keys and identifiers are taken as 32-byte values and epochs
  as \<open>uint64\<close>; the package only stores, copies and compares them.
\<close>

type_synonym PublicKey = "256 word"
type_synonym Namespace = "256 word"
type_synonym EpochTime = uint64
type_synonym Quantity = nat

subsection \<open>Errors\<close>

datatype quantity_error = DivisionError

datatype error =
    ErrInvalidRole uint8
  | ErrInvalidRoleText string
  | ErrNoWorkers
  | ErrQuo Quantity Quantity quantity_error
  | ErrTooManyBaseUnits Quantity
  | PanicDivideByZero
  | PanicIndexOutOfRange

subsection \<open>Role\<close>

type_synonym Role = uint8

definition RoleInvalid :: Role where
  "RoleInvalid = 0"

definition RoleWorker :: Role where
  "RoleWorker = 1"

definition RoleBackupWorker :: Role where
  "RoleBackupWorker = 2"

definition RoleInvalidName :: string where
  "RoleInvalidName = ''invalid''"

definition RoleWorkerName :: string where
  "RoleWorkerName = ''worker''"

definition RoleBackupWorkerName :: string where
  "RoleBackupWorkerName = ''backup-worker''"

definition Role_MarshalText :: "Role \<Rightarrow> error + string" where
  "Role_MarshalText r =
     (if r = RoleInvalid then Inr RoleInvalidName
      else if r = RoleWorker then Inr RoleWorkerName
      else if r = RoleBackupWorker then Inr RoleBackupWorkerName
      else Inl (ErrInvalidRole r))"

definition Role_UnmarshalText :: "Role \<Rightarrow> string \<Rightarrow> error option \<times> Role" where
  "Role_UnmarshalText r text =
     (if text = RoleWorkerName then (None, RoleWorker)
      else if text = RoleBackupWorkerName then (None, RoleBackupWorker)
      else (Some (ErrInvalidRoleText text), r))"

subsection \<open>CommitteeKind\<close>

type_synonym CommitteeKind = uint8

definition KindInvalid :: CommitteeKind where
  "KindInvalid = 0"

definition KindComputeExecutor :: CommitteeKind where
  "KindComputeExecutor = 1"

definition KindInvalidName :: string where
  "KindInvalidName = ''invalid''"

definition KindComputeExecutorName :: string where
  "KindComputeExecutorName = ''executor''"

definition CommitteeKind_MarshalText :: "CommitteeKind \<Rightarrow> error + string" where
  "CommitteeKind_MarshalText k =
     (if k = KindInvalid then Inr KindInvalidName
      else if k = KindComputeExecutor then Inr KindComputeExecutorName
      else Inl (ErrInvalidRole k))"

definition CommitteeKind_UnmarshalText ::
  "CommitteeKind \<Rightarrow> string \<Rightarrow> error option \<times> CommitteeKind" where
  "CommitteeKind_UnmarshalText k text =
     (if text = KindComputeExecutorName then (None, KindComputeExecutor)
      else (Some (ErrInvalidRoleText text), k))"

subsection \<open>Force-election overrides\<close>

record ForceElectCommitteeRole =
  Kind :: CommitteeKind
  Roles :: "Role list"
  IsScheduler :: bool

subsection \<open>Committees\<close>

record CommitteeNode =
  Role :: Role
  PublicKey :: PublicKey

record Committee =
  Kind :: CommitteeKind
  Members :: "CommitteeNode list"
  RuntimeID :: Namespace
  ValidFor :: EpochTime

text \<open>
  The first loop of \<open>TransactionSchedulerIdx\<close>: \<open>total\<close> is incremented once for
  each member whose role is \<open>RoleWorker\<close>.
\<close>

fun count_workers :: "CommitteeNode list \<Rightarrow> uint64 \<Rightarrow> uint64" where
  "count_workers [] total' = total'"
| "count_workers (member # ms) total' =
     (if Role member \<noteq> RoleWorker then count_workers ms total'
      else count_workers ms (total' + 1))"

text \<open>
  The second loop, over the members that remain, with the loop index \<open>idx\<close> and the
  counter \<open>worker\<close>. The remainder \<open>round % total\<close> panics in Go when \<open>total\<close> is
  zero. Falling out of the loop reaches the final \<open>return 0, fmt.Errorf(...)\<close>.
\<close>

fun find_scheduler ::
  "CommitteeNode list \<Rightarrow> uint64 \<Rightarrow> uint64 \<Rightarrow> nat \<Rightarrow> uint64 \<Rightarrow> error + nat" where
  "find_scheduler [] round total' idx worker = Inl ErrNoWorkers"
| "find_scheduler (member # ms) round total' idx worker =
     (if Role member \<noteq> RoleWorker then find_scheduler ms round total' (Suc idx) worker
      else if total' = 0 then Inl PanicDivideByZero
      else if worker = round mod total' then Inr idx
      else find_scheduler ms round total' (Suc idx) (worker + 1))"

definition TransactionSchedulerIdx :: "Committee \<Rightarrow> uint64 \<Rightarrow> error + nat" where
  "TransactionSchedulerIdx c round =
     (let total' = count_workers (Members c) 0
      in find_scheduler (Members c) round total' 0 0)"

definition TransactionScheduler :: "Committee \<Rightarrow> uint64 \<Rightarrow> error + CommitteeNode" where
  "TransactionScheduler c round =
     (case TransactionSchedulerIdx c round of
        Inl err \<Rightarrow> Inl err
      | Inr idx \<Rightarrow>
          if idx < length (Members c) then Inr (Members c ! idx)
          else Inl PanicIndexOutOfRange)"

text \<open>
  The indices of the Worker members, in \<open>Members\<close> order: the \<open>k\<close>-th element is the
  index into \<open>Members\<close> of the \<open>k\<close>-th Worker member, the members of other
  roles being skipped while keeping their positions. This is the specification side
  of the rotation; nothing in the source computes it.
\<close>

definition WorkerIndices :: "Committee \<Rightarrow> nat list" where
  "WorkerIndices c =
     filter (\<lambda>i. Role (Members c ! i) = RoleWorker) [0..<length (Members c)]"

subsection \<open>The hash of the members\<close>



subsection \<open>Voting power\<close>

text \<open>
  Modelled from the spec: \<open>Quantity.Quo\<close> of the quantity package is not among the
  sources. By the spec the quotient is the exact integer (floor) division of the
  stake by the unit, and the division fails when the unit is zero.
\<close>

definition Quo :: "Quantity \<Rightarrow> Quantity \<Rightarrow> quantity_error + Quantity" where
  "Quo q n = (if n = 0 then Inl DivisionError else Inr (q div n))"

text \<open>
  \<open>Quantity.ToBigInt\<close> gives the value as a \<open>big.Int\<close>; \<open>big.Int.IsInt64\<close> and
  \<open>big.Int.Int64\<close> are Go's standard library: whether the value is representable
  as an \<open>int64\<close>, and its low 64 bits.
\<close>

definition ToBigInt :: "Quantity \<Rightarrow> int" where
  "ToBigInt q = int q"

definition IsInt64 :: "int \<Rightarrow> bool" where
  "IsInt64 x \<longleftrightarrow> - (2 ^ 63) \<le> x \<and> x \<le> 2 ^ 63 - 1"

definition Int64 :: "int \<Rightarrow> int64" where
  "Int64 x = word_of_int x"

text \<open>
  \<open>BaseUnitsPerVotingPower\<close> is a package variable. \<open>VotingPowerFromStake\<close> reads
  it, so the model takes its current value as the first argument; \<open>init\<close> assigns it
  (\<open>FromUint64(16)\<close> overwrites whatever the variable held).
\<close>

definition VotingPowerFromStake :: "Quantity \<Rightarrow> Quantity \<Rightarrow> error + int64" where
  "VotingPowerFromStake BaseUnitsPerVotingPower t =
     (case Quo t BaseUnitsPerVotingPower of
        Inl err \<Rightarrow> Inl (ErrQuo t BaseUnitsPerVotingPower err)
      | Inr powerQ \<Rightarrow>
          if powerQ = 0 then Inr 1
          else
            let powerBI = ToBigInt powerQ
            in if \<not> IsInt64 powerBI then Inl (ErrTooManyBaseUnits powerQ)
               else Inr (Int64 powerBI))"

definition init :: "Quantity \<Rightarrow> Quantity" where
  "init BaseUnitsPerVotingPower = 16"

subsection \<open>Consensus parameters\<close>

text \<open>
  Go's \<open>int\<close> fields are only stored, copied and compared here, never computed
  with: they are modelled by their integer values. The optional fields of the
  changes are pointers tested against nil.
\<close>

record ConsensusParameterChanges =
  MinValidators :: "int option"
  MaxValidators :: "int option"

record ConsensusParameters =
  MinValidators :: int
  MaxValidators :: int
  MaxValidatorsPerEntity :: int
  DebugBypassStake :: bool
  RewardFactorEpochElectionAny :: Quantity
  DebugForceElect :: "Namespace \<rightharpoonup> (PublicKey \<rightharpoonup> ForceElectCommitteeRole)"
  DebugAllowWeakAlpha :: bool

text \<open>
  \<open>Apply\<close> assigns through its argument pointer: the model returns the error value
  (always nil, \<open>None\<close>) and the parameters as the call leaves them.
\<close>

definition Apply ::
  "ConsensusParameterChanges \<Rightarrow> ConsensusParameters \<Rightarrow> error option \<times> ConsensusParameters" where
  "Apply c params =
     (let params1 = (case ConsensusParameterChanges.MinValidators c of
                       None \<Rightarrow> params
                     | Some v \<Rightarrow> params\<lparr>MinValidators := v\<rparr>);
          params2 = (case ConsensusParameterChanges.MaxValidators c of
                       None \<Rightarrow> params1
                     | Some v \<Rightarrow> params1\<lparr>MaxValidators := v\<rparr>)
      in (None, params2))"

section \<open>The rotation of the transaction scheduler\<close>

subsection \<open>The two loops\<close>

text \<open>
  The first loop adds the number of Worker members to \<open>total\<close>, modulo \<open>2 ^ 64\<close>.
  The second loop is followed with the indices of the Worker members that remain
  (\<open>enumerate idx ms\<close> pairs each remaining member with its index): as long as the
  counter has not passed \<open>round mod total\<close> and enough Worker members remain, it
  returns the index of the Worker member that many places further on.
\<close>

lemma count_workers_eq:
  "count_workers ms t = t + of_nat (length (filter (\<lambda>m. Role m = RoleWorker) ms))"
  by (induction ms arbitrary: t) (simp_all add: add.assoc)

lemma enum_filter:
  "map fst (filter (\<lambda>p. P (snd p)) (enumerate n xs)) =
   filter (\<lambda>i. P (xs ! (i - n))) [n..<n + length xs]"
proof (induction xs arbitrary: n)
  case Nil
  then show ?case by simp
next
  case (Cons x xs)
  have upt: "[n..<n + length (x # xs)] = n # [Suc n..<Suc n + length xs]"
    using upt_conv_Cons[of n "n + length (x # xs)"] by (simp del: upt_Suc)
  have shift: "filter (\<lambda>i. P ((x # xs) ! (i - n))) [Suc n..<Suc n + length xs]
      = filter (\<lambda>i. P (xs ! (i - Suc n))) [Suc n..<Suc n + length xs]"
    by (rule filter_cong) (auto simp: nth_Cons')
  show ?case
    unfolding upt using Cons[of "Suc n"] shift by simp
qed

lemma WorkerIndices_enumerate:
  "WorkerIndices c = map fst (filter (\<lambda>p. Role (snd p) = RoleWorker) (enumerate 0 (Members c)))"
  using enum_filter[of "\<lambda>m. Role m = RoleWorker" 0 "Members c"]
  by (simp add: WorkerIndices_def)

lemma length_widx:
  "length (filter (\<lambda>p. Role (snd p) = RoleWorker) (enumerate n ms))
   = length (filter (\<lambda>m. Role m = RoleWorker) ms)"
  by (induction ms arbitrary: n) simp_all

lemma find_scheduler_nth:
  assumes "total' \<noteq> 0"
      and "unat worker \<le> unat (round mod total')"
      and "unat (round mod total') - unat worker
             < length (filter (\<lambda>p. Role (snd p) = RoleWorker) (enumerate idx ms))"
  shows "find_scheduler ms round total' idx worker =
         Inr (map fst (filter (\<lambda>p. Role (snd p) = RoleWorker) (enumerate idx ms))
                ! (unat (round mod total') - unat worker))"
  using assms
proof (induction ms arbitrary: idx worker)
  case Nil
  then show ?case by simp
next
  case (Cons m ms)
  show ?case
  proof (cases "Role m = RoleWorker")
    case False
    with Cons show ?thesis by simp
  next
    case True
    show ?thesis
    proof (cases "worker = round mod total'")
      case True
      with \<open>Role m = RoleWorker\<close> Cons.prems show ?thesis by simp
    next
      case False
      then have lt: "unat worker < unat (round mod total')"
        using Cons.prems(2) by (metis le_neq_implies_less word_unat_eq_iff)
      have "unat (round mod total') < 2 ^ 64"
        using unsigned_less[of "round mod total'"] by simp
      with lt have "unat worker + 1 < 2 ^ 64" by simp
      then have suc: "unat (worker + 1) = Suc (unat worker)"
        by (simp add: unat_word_ariths)
      have "unat (round mod total') - unat worker
            = Suc (unat (round mod total') - unat (worker + 1))"
        using lt suc by simp
      with Cons.IH[of "worker + 1" "Suc idx"] Cons.prems True False lt suc
      show ?thesis by simp
    qed
  qed
qed

lemma WorkerIndices_length:
  "length (WorkerIndices c) = length (filter (\<lambda>m. Role m = RoleWorker) (Members c))"
  by (simp add: WorkerIndices_enumerate length_widx)

lemma TransactionSchedulerIdx_nth:
  assumes len: "length (Members c) < 2 ^ 63"
      and tot: "total' = length (filter (\<lambda>m. Role m = RoleWorker) (Members c))"
      and pos: "1 \<le> total'"
  shows "TransactionSchedulerIdx c round = Inr (WorkerIndices c ! (unat round mod total'))"
proof -
  have "total' \<le> length (Members c)"
    unfolding tot by (rule length_filter_le)
  with len have small: "total' < 2 ^ 64" by simp
  have cw: "count_workers (Members c) 0 = of_nat total'"
    by (simp add: count_workers_eq tot)
  have un: "unat (of_nat total' :: uint64) = total'"
    using small by (simp add: unat_of_nat)
  then have nz: "(of_nat total' :: uint64) \<noteq> 0"
    using pos by (metis not_one_le_zero unat_0)
  have md: "unat (round mod of_nat total') = unat round mod total'"
    by (simp add: unat_mod un)
  have "unat round mod total' < total'"
    using pos by simp
  then have "unat (round mod of_nat total') < total'"
    by (simp only: md)
  moreover have "length (filter (\<lambda>p. Role (snd p) = RoleWorker) (enumerate 0 (Members c)))
        = total'"
    by (simp only: length_widx tot)
  ultimately have "unat (round mod of_nat total') - unat (0 :: uint64)
        < length (filter (\<lambda>p. Role (snd p) = RoleWorker) (enumerate 0 (Members c)))"
    by simp
  from find_scheduler_nth[OF nz _ this]
  show ?thesis
    by (simp add: TransactionSchedulerIdx_def cw md WorkerIndices_enumerate)
qed

text \<open>The indices listed by \<open>WorkerIndices\<close>: in range, of Worker members, increasing.\<close>

lemma set_WorkerIndices:
  "set (WorkerIndices c) = {i. i < length (Members c) \<and> Role (Members c ! i) = RoleWorker}"
  by (auto simp: WorkerIndices_def)

lemma sorted_WorkerIndices: "sorted_wrt (<) (WorkerIndices c)"
  unfolding WorkerIndices_def by (rule sorted_wrt_filter) simp

lemma distinct_WorkerIndices: "distinct (WorkerIndices c)"
  by (simp add: WorkerIndices_def)

lemma workers_pos:
  "(\<exists>m \<in> set ms. Role m = RoleWorker) \<longleftrightarrow>
   1 \<le> length (filter (\<lambda>m. Role m = RoleWorker) ms)"
  by (induction ms) auto

lemma nth_mod_twice:
  "map (\<lambda>r. W ! (r mod length W)) [0..<2 * length W] = W @ W"
proof -
  let ?t = "length W"
  have split: "[0..<2 * ?t] = [0..<?t] @ map (\<lambda>i. i + ?t) [0..<?t]"
    using upt_add_eq_append[of 0 ?t ?t] map_add_upt[of ?t ?t] by (simp add: mult_2)
  have "map (\<lambda>r. W ! (r mod ?t)) [0..<?t] = map ((!) W) [0..<?t]"
    by (rule map_cong) simp_all
  then have one: "map (\<lambda>r. W ! (r mod ?t)) [0..<?t] = W"
    by (simp only: map_nth)
  have "map (\<lambda>r. W ! (r mod ?t)) (map (\<lambda>i. i + ?t) [0..<?t]) = map ((!) W) [0..<?t]"
    unfolding map_map by (rule map_cong) simp_all
  then have two: "map (\<lambda>r. W ! (r mod ?t)) (map (\<lambda>i. i + ?t) [0..<?t]) = W"
    by (simp only: map_nth)
  show ?thesis
    unfolding split map_append one two ..
qed

lemma TransactionSchedulerIdx_period:
  assumes len: "length (Members c) < 2 ^ 63"
      and tot: "total' = length (filter (\<lambda>m. Role m = RoleWorker) (Members c))"
      and pos: "1 \<le> total'"
      and nowrap: "unat round + total' < 2 ^ 64"
  shows "TransactionSchedulerIdx c (round + of_nat total') = TransactionSchedulerIdx c round"
proof -
  have "total' < 2 ^ 64" using nowrap by simp
  then have "unat (of_nat total' :: uint64) = total'"
    by (simp add: unat_of_nat)
  then have "unat (round + of_nat total') = unat round + total'"
    using nowrap by (simp add: unat_word_ariths)
  then show ?thesis
    by (simp add: TransactionSchedulerIdx_nth[OF len tot pos])
qed

lemma TransactionSchedulerIdx_two_periods:
  assumes len: "length (Members c) < 2 ^ 63"
      and tot: "total' = length (filter (\<lambda>m. Role m = RoleWorker) (Members c))"
      and pos: "1 \<le> total'"
  shows "map (\<lambda>r. TransactionSchedulerIdx c (of_nat r)) [0..<2 * total']
         = map Inr (WorkerIndices c @ WorkerIndices c)"
proof -
  have "total' \<le> length (Members c)"
    unfolding tot by (rule length_filter_le)
  with len have small: "2 * total' \<le> 2 ^ 64" by simp
  have "map (\<lambda>r. TransactionSchedulerIdx c (of_nat r)) [0..<2 * total']
      = map (\<lambda>r. Inr (WorkerIndices c ! (r mod total'))) [0..<2 * total']"
  proof (rule map_cong[OF refl])
    fix r assume "r \<in> set [0..<2 * total']"
    with small have "r < 2 ^ 64" by simp
    then have "unat (of_nat r :: uint64) = r"
      by (simp add: unat_of_nat)
    then show "TransactionSchedulerIdx c (of_nat r) = Inr (WorkerIndices c ! (r mod total'))"
      by (simp add: TransactionSchedulerIdx_nth[OF len tot pos])
  qed
  also have "\<dots> = map Inr (map (\<lambda>r. WorkerIndices c ! (r mod total')) [0..<2 * total'])"
    by simp
  also have "\<dots> = map Inr (WorkerIndices c @ WorkerIndices c)"
    using nth_mod_twice[of "WorkerIndices c"] tot
    by (simp only: WorkerIndices_length)
  finally show ?thesis .
qed

lemma TransactionSchedulerIdx_valid:
  assumes len: "length (Members c) < 2 ^ 63"
      and ex: "\<exists>m \<in> set (Members c). Role m = RoleWorker"
  shows "\<exists>idx. TransactionSchedulerIdx c round = Inr idx \<and> idx < length (Members c)
           \<and> Role (Members c ! idx) = RoleWorker"
proof -
  define t where "t = length (filter (\<lambda>m. Role m = RoleWorker) (Members c))"
  have pos: "1 \<le> t" using ex workers_pos[of "Members c"] by (simp add: t_def)
  have r: "TransactionSchedulerIdx c round = Inr (WorkerIndices c ! (unat round mod t))"
    by (rule TransactionSchedulerIdx_nth[OF len t_def pos])
  have "unat round mod t < length (WorkerIndices c)"
    using pos by (simp add: WorkerIndices_length t_def[symmetric])
  then have "WorkerIndices c ! (unat round mod t) \<in> set (WorkerIndices c)"
    by (rule nth_mem)
  then show ?thesis
    unfolding r set_WorkerIndices by simp
qed

subsection \<open>A committee without workers\<close>

lemma find_scheduler_no_workers:
  "\<forall>m \<in> set ms. Role m \<noteq> RoleWorker \<Longrightarrow>
   find_scheduler ms round total' idx worker = Inl ErrNoWorkers"
  by (induction ms arbitrary: idx) simp_all

text \<open>
  Claim C4. For a committee none of whose members has the role \<open>RoleWorker\<close> (the
  empty committee among them), \<open>TransactionSchedulerIdx\<close> fails with the no-workers
  error at every round, so no index is returned.
\<close>

theorem TransactionSchedulerIdx_no_workers:
  assumes "\<forall>m \<in> set (Members c). Role m \<noteq> RoleWorker"
  shows "TransactionSchedulerIdx c round = Inl ErrNoWorkers"
  using assms by (simp add: TransactionSchedulerIdx_def find_scheduler_no_workers)

theorem TransactionSchedulerIdx_no_workers_witness:
  "TransactionSchedulerIdx
     \<lparr>Kind = KindComputeExecutor,
      Members = [\<lparr>Role = RoleBackupWorker, PublicKey = 7\<rparr>, \<lparr>Role = RoleInvalid, PublicKey = 8\<rparr>],
      RuntimeID = 1, ValidFor = 3\<rparr> 5 = Inl ErrNoWorkers
   \<and> TransactionSchedulerIdx
     \<lparr>Kind = KindComputeExecutor, Members = [], RuntimeID = 1, ValidFor = 3\<rparr> 0
     = Inl ErrNoWorkers"
  using TransactionSchedulerIdx_no_workers
          [of "\<lparr>Kind = KindComputeExecutor,
                Members = [\<lparr>Role = RoleBackupWorker, PublicKey = 7\<rparr>,
                           \<lparr>Role = RoleInvalid, PublicKey = 8\<rparr>],
                RuntimeID = 1, ValidFor = 3\<rparr>" 5]
        TransactionSchedulerIdx_no_workers
          [of "\<lparr>Kind = KindComputeExecutor, Members = [], RuntimeID = 1, ValidFor = 3\<rparr>" 0]
  by (simp add: RoleWorker_def RoleBackupWorker_def RoleInvalid_def)

subsection \<open>Counting results, and the remainder by zero\<close>

lemma count_list_distinct:
  "distinct xs \<Longrightarrow> x \<in> set xs \<Longrightarrow> count_list xs x = 1"
  by (induction xs) (auto simp: count_list_0_iff)

lemma count_list_map_Inr:
  "count_list (map Inr xs) (Inr x :: 'a + 'b) = count_list xs x"
  by (induction xs) simp_all

lemma find_scheduler_panic_iff:
  "find_scheduler ms round total' idx worker = Inl PanicDivideByZero
   \<longleftrightarrow> total' = 0 \<and> (\<exists>m \<in> set ms. Role m = RoleWorker)"
  by (induction ms arbitrary: idx worker) auto

lemma count_workers_nonzero:
  assumes "length ms < 2 ^ 63" and "\<exists>m \<in> set ms. Role m = RoleWorker"
  shows "count_workers ms 0 \<noteq> 0"
proof -
  let ?t = "length (filter (\<lambda>m. Role m = RoleWorker) ms)"
  have "?t < 2 ^ 63"
    by (rule le_less_trans[OF length_filter_le assms(1)])
  then have "?t < 2 ^ 64" by simp
  then have "unat (of_nat ?t :: uint64) = ?t"
    by (simp add: unat_of_nat)
  moreover have "1 \<le> ?t"
    using assms(2) workers_pos[of ms] by simp
  ultimately have "(of_nat ?t :: uint64) \<noteq> 0"
    by (metis not_one_le_zero unat_0)
  then show ?thesis
    by (simp add: count_workers_eq)
qed

subsection \<open>Round robin over the workers\<close>

text \<open>
  Claim C1. Let \<open>total\<close> be the number of members with role \<open>RoleWorker\<close> and let it be
  at least 1. At every round \<open>TransactionSchedulerIdx\<close> returns, without error, the
  index into \<open>Members\<close> of the \<open>(round mod total)\<close>-th Worker member in \<open>Members\<close>
  order (\<open>WorkerIndices\<close> lists these indices in increasing order). Hence the index is
  periodic with period \<open>total\<close> wherever \<open>round + total\<close> is still a round (does not
  exceed the \<open>uint64\<close> range), and the rounds \<open>0, \<dots>, 2 * total - 1\<close> give the
  worker indices in committee order, twice over: each of them exactly twice. The
  length bound is the one every Go slice meets.
\<close>

theorem TransactionSchedulerIdx_round_robin:
  assumes "length (Members c) < 2 ^ 63"
      and "total' = length (filter (\<lambda>m. Role m = RoleWorker) (Members c))"
      and "1 \<le> total'"
  shows "TransactionSchedulerIdx c round = Inr (WorkerIndices c ! (unat round mod total'))
       \<and> length (WorkerIndices c) = total'
       \<and> sorted_wrt (<) (WorkerIndices c)
       \<and> (unat round + total' < 2 ^ 64 \<longrightarrow>
            TransactionSchedulerIdx c (round + of_nat total') = TransactionSchedulerIdx c round)
       \<and> map (\<lambda>r. TransactionSchedulerIdx c (of_nat r)) [0..<2 * total']
            = map Inr (WorkerIndices c @ WorkerIndices c)
       \<and> (\<forall>i \<in> set (WorkerIndices c).
            count_list (map (\<lambda>r. TransactionSchedulerIdx c (of_nat r)) [0..<2 * total']) (Inr i) = 2)"
proof -
  note two = TransactionSchedulerIdx_two_periods[OF assms]
  have "\<forall>i \<in> set (WorkerIndices c).
          count_list (map (\<lambda>r. TransactionSchedulerIdx c (of_nat r)) [0..<2 * total']) (Inr i) = 2"
    unfolding two
    by (simp add: count_list_map_Inr count_list_distinct distinct_WorkerIndices
             del: map_append)
  then show ?thesis
    using TransactionSchedulerIdx_nth[OF assms] TransactionSchedulerIdx_period[OF assms] two
      WorkerIndices_length[of c] assms(2) sorted_WorkerIndices[of c]
    by simp
qed

theorem TransactionSchedulerIdx_round_robin_witness:
  "TransactionSchedulerIdx
     \<lparr>Kind = KindComputeExecutor,
      Members = [\<lparr>Role = RoleWorker, PublicKey = 10\<rparr>,
                 \<lparr>Role = RoleBackupWorker, PublicKey = 11\<rparr>,
                 \<lparr>Role = RoleWorker, PublicKey = 12\<rparr>],
      RuntimeID = 1, ValidFor = 3\<rparr> 5 = Inr 2
   \<and> map (\<lambda>r. TransactionSchedulerIdx
                \<lparr>Kind = KindComputeExecutor,
                 Members = [\<lparr>Role = RoleWorker, PublicKey = 10\<rparr>,
                            \<lparr>Role = RoleBackupWorker, PublicKey = 11\<rparr>,
                            \<lparr>Role = RoleWorker, PublicKey = 12\<rparr>],
                 RuntimeID = 1, ValidFor = 3\<rparr> (of_nat r)) [0..<2 * 2]
       = [Inr 0, Inr 2, Inr 0, Inr 2]"
proof -
  let ?c = "\<lparr>Kind = KindComputeExecutor,
             Members = [\<lparr>Role = RoleWorker, PublicKey = 10\<rparr>,
                        \<lparr>Role = RoleBackupWorker, PublicKey = 11\<rparr>,
                        \<lparr>Role = RoleWorker, PublicKey = 12\<rparr>],
             RuntimeID = 1, ValidFor = 3\<rparr>"
  have len: "length (Members ?c) < 2 ^ 63" by simp
  have tot: "(2::nat) = length (filter (\<lambda>m. Role m = RoleWorker) (Members ?c))"
    by (simp add: RoleWorker_def RoleBackupWorker_def)
  have W: "WorkerIndices ?c = [0, 2]"
    by (simp add: WorkerIndices_def RoleWorker_def RoleBackupWorker_def upt_conv_Cons)
  have md: "unat (5 :: uint64) mod 2 = 1" by simp
  from TransactionSchedulerIdx_round_robin[OF len tot, of 5]
  show ?thesis
    unfolding W md by simp
qed

text \<open>
  Claim C9. \<open>TransactionSchedulerIdx\<close> never divides by zero. In the second loop the
  remainder \<open>round % total\<close> panics exactly when \<open>total\<close> is zero and a Worker member
  is visited; but the first loop leaves \<open>total\<close> non-zero whenever there is a Worker
  member. So every call returns either the no-workers error or an index that is in
  range and designates a Worker member. (The model's functions are total, all being
  defined by structural recursion over \<open>Members\<close>.)
\<close>

theorem TransactionSchedulerIdx_total:
  assumes "length (Members c) < 2 ^ 63"
  shows "TransactionSchedulerIdx c round \<noteq> Inl PanicDivideByZero
       \<and> (\<forall>total' idx worker.
            find_scheduler (Members c) round total' idx worker = Inl PanicDivideByZero
            \<longleftrightarrow> total' = 0 \<and> (\<exists>m \<in> set (Members c). Role m = RoleWorker))
       \<and> ((\<exists>m \<in> set (Members c). Role m = RoleWorker)
            \<longrightarrow> count_workers (Members c) 0 \<noteq> 0)
       \<and> (TransactionSchedulerIdx c round = Inl ErrNoWorkers
            \<or> (\<exists>idx. TransactionSchedulerIdx c round = Inr idx \<and> idx < length (Members c)
                  \<and> Role (Members c ! idx) = RoleWorker))"
proof (cases "\<exists>m \<in> set (Members c). Role m = RoleWorker")
  case True
  from TransactionSchedulerIdx_valid[OF assms True, of round]
  obtain idx where "TransactionSchedulerIdx c round = Inr idx" "idx < length (Members c)"
    "Role (Members c ! idx) = RoleWorker" by blast
  then show ?thesis
    using count_workers_nonzero[OF assms True] find_scheduler_panic_iff by auto
next
  case False
  then have "TransactionSchedulerIdx c round = Inl ErrNoWorkers"
    by (simp add: TransactionSchedulerIdx_def find_scheduler_no_workers)
  then show ?thesis
    using False find_scheduler_panic_iff by auto
qed

theorem TransactionSchedulerIdx_total_witness:
  "TransactionSchedulerIdx
     \<lparr>Kind = KindComputeExecutor,
      Members = [\<lparr>Role = RoleBackupWorker, PublicKey = 21\<rparr>,
                 \<lparr>Role = RoleWorker, PublicKey = 22\<rparr>],
      RuntimeID = 2, ValidFor = 9\<rparr> 6 = Inr 1
   \<and> count_workers [\<lparr>Role = RoleBackupWorker, PublicKey = 21\<rparr>,
                      \<lparr>Role = RoleWorker, PublicKey = 22\<rparr>] 0 = 1
   \<and> find_scheduler [\<lparr>Role = RoleBackupWorker, PublicKey = 21\<rparr>,
                       \<lparr>Role = RoleWorker, PublicKey = 22\<rparr>] 6 0 0 0 = Inl PanicDivideByZero"
  using TransactionSchedulerIdx_total
          [of "\<lparr>Kind = KindComputeExecutor,
                Members = [\<lparr>Role = RoleBackupWorker, PublicKey = 21\<rparr>,
                           \<lparr>Role = RoleWorker, PublicKey = 22\<rparr>],
                RuntimeID = 2, ValidFor = 9\<rparr>" 6]
  by (simp add: TransactionSchedulerIdx_def RoleWorker_def RoleBackupWorker_def)

subsection \<open>The scheduler node\<close>

text \<open>
  Claim C5. For a committee with at least one Worker member \<open>TransactionScheduler\<close>
  succeeds at every round and returns a member whose role is \<open>RoleWorker\<close>, never a
  backup worker or an invalid member. For the committee
  \<open>[{Worker, A}, {BackupWorker, B}, {Worker, C}]\<close> round 0 selects \<open>A\<close>, round 1
  selects \<open>C\<close> and round 2 selects \<open>A\<close> again.
\<close>

theorem TransactionScheduler_worker:
  "(length (Members c) < 2 ^ 63 \<and> (\<exists>m \<in> set (Members c). Role m = RoleWorker)
      \<longrightarrow> (\<exists>n. TransactionScheduler c round = Inr n \<and> n \<in> set (Members c)
                 \<and> Role n = RoleWorker))
   \<and> TransactionScheduler
         \<lparr>Kind = k, Members = [\<lparr>Role = RoleWorker, PublicKey = A\<rparr>,
                              \<lparr>Role = RoleBackupWorker, PublicKey = B\<rparr>,
                              \<lparr>Role = RoleWorker, PublicKey = C\<rparr>],
          RuntimeID = rid, ValidFor = e\<rparr> 0 = Inr \<lparr>Role = RoleWorker, PublicKey = A\<rparr>
   \<and> TransactionScheduler
         \<lparr>Kind = k, Members = [\<lparr>Role = RoleWorker, PublicKey = A\<rparr>,
                              \<lparr>Role = RoleBackupWorker, PublicKey = B\<rparr>,
                              \<lparr>Role = RoleWorker, PublicKey = C\<rparr>],
          RuntimeID = rid, ValidFor = e\<rparr> 1 = Inr \<lparr>Role = RoleWorker, PublicKey = C\<rparr>
   \<and> TransactionScheduler
         \<lparr>Kind = k, Members = [\<lparr>Role = RoleWorker, PublicKey = A\<rparr>,
                              \<lparr>Role = RoleBackupWorker, PublicKey = B\<rparr>,
                              \<lparr>Role = RoleWorker, PublicKey = C\<rparr>],
          RuntimeID = rid, ValidFor = e\<rparr> 2 = Inr \<lparr>Role = RoleWorker, PublicKey = A\<rparr>"
proof -
  have general: "\<exists>n. TransactionScheduler c round = Inr n \<and> n \<in> set (Members c)
                  \<and> Role n = RoleWorker"
    if len: "length (Members c) < 2 ^ 63" and ex: "\<exists>m \<in> set (Members c). Role m = RoleWorker"
  proof -
    from TransactionSchedulerIdx_valid[OF len ex, of round]
    obtain idx where "TransactionSchedulerIdx c round = Inr idx" "idx < length (Members c)"
      "Role (Members c ! idx) = RoleWorker" by blast
    then show ?thesis
      by (simp add: TransactionScheduler_def)
  qed
  have examples: "TransactionSchedulerIdx
         \<lparr>Kind = k, Members = [\<lparr>Role = RoleWorker, PublicKey = A\<rparr>,
                              \<lparr>Role = RoleBackupWorker, PublicKey = B\<rparr>,
                              \<lparr>Role = RoleWorker, PublicKey = C\<rparr>],
          RuntimeID = rid, ValidFor = e\<rparr> 0 = Inr 0"
      "TransactionSchedulerIdx
         \<lparr>Kind = k, Members = [\<lparr>Role = RoleWorker, PublicKey = A\<rparr>,
                              \<lparr>Role = RoleBackupWorker, PublicKey = B\<rparr>,
                              \<lparr>Role = RoleWorker, PublicKey = C\<rparr>],
          RuntimeID = rid, ValidFor = e\<rparr> 1 = Inr 2"
      "TransactionSchedulerIdx
         \<lparr>Kind = k, Members = [\<lparr>Role = RoleWorker, PublicKey = A\<rparr>,
                              \<lparr>Role = RoleBackupWorker, PublicKey = B\<rparr>,
                              \<lparr>Role = RoleWorker, PublicKey = C\<rparr>],
          RuntimeID = rid, ValidFor = e\<rparr> 2 = Inr 0"
    by (simp_all add: TransactionSchedulerIdx_def RoleWorker_def RoleBackupWorker_def)
  show ?thesis
    using general by (simp add: TransactionScheduler_def examples)
qed

theorem TransactionScheduler_worker_witness:
  "TransactionScheduler
     \<lparr>Kind = KindComputeExecutor,
      Members = [\<lparr>Role = RoleWorker, PublicKey = 1\<rparr>,
                 \<lparr>Role = RoleBackupWorker, PublicKey = 2\<rparr>,
                 \<lparr>Role = RoleWorker, PublicKey = 3\<rparr>],
      RuntimeID = 5, ValidFor = 8\<rparr> 1 = Inr \<lparr>Role = RoleWorker, PublicKey = 3\<rparr>
   \<and> (\<exists>n. TransactionScheduler
     \<lparr>Kind = KindComputeExecutor,
      Members = [\<lparr>Role = RoleWorker, PublicKey = 1\<rparr>,
                 \<lparr>Role = RoleBackupWorker, PublicKey = 2\<rparr>,
                 \<lparr>Role = RoleWorker, PublicKey = 3\<rparr>],
      RuntimeID = 5, ValidFor = 8\<rparr> 7 = Inr n \<and> Role n = RoleWorker)"
  using TransactionScheduler_worker
          [of "\<lparr>Kind = KindComputeExecutor,
                Members = [\<lparr>Role = RoleWorker, PublicKey = 1\<rparr>,
                           \<lparr>Role = RoleBackupWorker, PublicKey = 2\<rparr>,
                           \<lparr>Role = RoleWorker, PublicKey = 3\<rparr>],
                RuntimeID = 5, ValidFor = 8\<rparr>" 7 KindComputeExecutor 1 2 3 5 8]
  by (auto simp add: RoleWorker_def RoleBackupWorker_def)

section \<open>The hash of the members\<close>









section \<open>Voting power from stake\<close>

text \<open>
  A value that passes \<open>IsInt64\<close> is the signed reading of the \<open>int64\<close> that
  \<open>Int64\<close> makes of it; a quantity passes exactly when it is at most \<open>2 ^ 63 - 1\<close>.
\<close>

lemma sint_Int64:
  assumes "IsInt64 x"
  shows "sint (Int64 x) = x"
proof -
  from assms have "- (2 ^ 63) \<le> x" and "x < 2 ^ 63"
    by (simp_all add: IsInt64_def)
  then have "signed_take_bit 63 x = x"
    by (rule signed_take_bit_int_eq_self)
  then show ?thesis
    by (simp add: Int64_def signed_of_int)
qed

lemma IsInt64_ToBigInt: "IsInt64 (ToBigInt q) \<longleftrightarrow> q \<le> 2 ^ 63 - 1"
proof -
  have "int q \<le> 2 ^ 63 - 1 \<longleftrightarrow> int q \<le> int (2 ^ 63 - 1)"
    by simp
  also have "\<dots> \<longleftrightarrow> q \<le> 2 ^ 63 - 1"
    by (rule of_nat_le_iff)
  finally show ?thesis
    by (simp add: IsInt64_def ToBigInt_def)
qed

text \<open>
  Claim C2. With \<open>q\<close> the floor of the stake divided by the unit (the current value
  of \<open>BaseUnitsPerVotingPower\<close>, which \<open>init\<close> fixes at 16): \<open>VotingPowerFromStake\<close>
  fails with the division error when the unit is zero, returns 1 when \<open>q\<close> is zero,
  fails with the overflow error when \<open>q\<close> exceeds the largest \<open>int64\<close>, and otherwise
  returns \<open>q\<close>. With the unit at 16 the stakes 0 and 5 give 1 and the stake 160 gives
  10; with the unit at 1 the stake \<open>2 ^ 70\<close> fails with the overflow error.
\<close>

theorem VotingPowerFromStake_spec:
  "(BaseUnits = 0 \<longrightarrow>
      VotingPowerFromStake BaseUnits stake = Inl (ErrQuo stake BaseUnits DivisionError))
   \<and> (BaseUnits \<noteq> 0 \<and> stake div BaseUnits = 0 \<longrightarrow>
      VotingPowerFromStake BaseUnits stake = Inr 1)
   \<and> (BaseUnits \<noteq> 0 \<and> 2 ^ 63 - 1 < stake div BaseUnits \<longrightarrow>
      VotingPowerFromStake BaseUnits stake = Inl (ErrTooManyBaseUnits (stake div BaseUnits)))
   \<and> (BaseUnits \<noteq> 0 \<and> 0 < stake div BaseUnits \<and> stake div BaseUnits \<le> 2 ^ 63 - 1 \<longrightarrow>
      (\<exists>vp. VotingPowerFromStake BaseUnits stake = Inr vp
          \<and> sint vp = int (stake div BaseUnits)))
   \<and> init b = 16
   \<and> VotingPowerFromStake (init b) 0 = Inr 1
   \<and> VotingPowerFromStake (init b) 5 = Inr 1
   \<and> VotingPowerFromStake (init b) 160 = Inr 10
   \<and> VotingPowerFromStake 1 (2 ^ 70) = Inl (ErrTooManyBaseUnits (2 ^ 70))"
proof -
  have zero: "VotingPowerFromStake 0 stake = Inl (ErrQuo stake 0 DivisionError)"
    by (simp add: VotingPowerFromStake_def Quo_def)
  have one: "VotingPowerFromStake BaseUnits stake = Inr 1"
    if "BaseUnits \<noteq> 0" "stake div BaseUnits = 0"
    using that by (simp add: VotingPowerFromStake_def Quo_def)
  have over: "VotingPowerFromStake BaseUnits stake = Inl (ErrTooManyBaseUnits (stake div BaseUnits))"
    if "BaseUnits \<noteq> 0" "2 ^ 63 - 1 < stake div BaseUnits"
    using that by (simp add: VotingPowerFromStake_def Quo_def IsInt64_ToBigInt)
  have fits: "\<exists>vp. VotingPowerFromStake BaseUnits stake = Inr vp
          \<and> sint vp = int (stake div BaseUnits)"
    if "BaseUnits \<noteq> 0" "0 < stake div BaseUnits" "stake div BaseUnits \<le> 2 ^ 63 - 1"
  proof -
    have "IsInt64 (ToBigInt (stake div BaseUnits))"
      using that(3) by (simp only: IsInt64_ToBigInt)
    then have "VotingPowerFromStake BaseUnits stake = Inr (Int64 (ToBigInt (stake div BaseUnits)))"
      "sint (Int64 (ToBigInt (stake div BaseUnits))) = ToBigInt (stake div BaseUnits)"
      using that(1,2) by (simp_all add: VotingPowerFromStake_def Quo_def sint_Int64)
    then show ?thesis
      by (simp add: ToBigInt_def)
  qed
  have ex: "VotingPowerFromStake 16 0 = Inr 1" "VotingPowerFromStake 16 5 = Inr 1"
    "VotingPowerFromStake 16 160 = Inr 10"
    by (simp_all add: VotingPowerFromStake_def Quo_def IsInt64_def ToBigInt_def Int64_def)
  have big: "VotingPowerFromStake 1 (2 ^ 70) = Inl (ErrTooManyBaseUnits (2 ^ 70))"
    by (simp add: VotingPowerFromStake_def Quo_def IsInt64_def ToBigInt_def)
  show ?thesis
    using zero one over fits ex big by (simp add: init_def)
qed

theorem VotingPowerFromStake_spec_witness:
  "VotingPowerFromStake 0 7 = Inl (ErrQuo 7 0 DivisionError)
   \<and> VotingPowerFromStake 16 15 = Inr 1
   \<and> VotingPowerFromStake 16 (2 ^ 68) = Inl (ErrTooManyBaseUnits (2 ^ 64))
   \<and> VotingPowerFromStake 16 163 = Inr 10"
  using VotingPowerFromStake_spec[of 0 7] VotingPowerFromStake_spec[of 16 15]
    VotingPowerFromStake_spec[of 16 "2 ^ 68"] VotingPowerFromStake_spec[of 16 163]
  by (simp add: VotingPowerFromStake_def Quo_def IsInt64_def ToBigInt_def Int64_def)

text \<open>
  Claim C10. Whenever \<open>VotingPowerFromStake\<close> succeeds, the voting power it returns,
  read as a signed 64-bit integer, is at least 1: never zero, never negative.
\<close>

theorem VotingPowerFromStake_positive:
  assumes "VotingPowerFromStake BaseUnits stake = Inr vp"
  shows "1 \<le> sint vp"
proof (cases "BaseUnits = 0 \<or> stake div BaseUnits = 0")
  case True
  with assms have "vp = 1"
    by (auto simp: VotingPowerFromStake_def Quo_def split: if_splits)
  then show ?thesis by simp
next
  case False
  with assms have fits: "IsInt64 (ToBigInt (stake div BaseUnits))"
    and val: "vp = Int64 (ToBigInt (stake div BaseUnits))"
    by (auto simp: VotingPowerFromStake_def Quo_def Let_def split: if_splits)
  from False have "1 \<le> ToBigInt (stake div BaseUnits)"
    by (simp add: ToBigInt_def)
  then show ?thesis
    by (simp only: val sint_Int64[OF fits])
qed

theorem VotingPowerFromStake_positive_witness:
  "VotingPowerFromStake 16 5 = Inr 1 \<and> 1 \<le> sint (1 :: int64)
   \<and> VotingPowerFromStake 16 160 = Inr 10 \<and> 1 \<le> sint (10 :: int64)"
proof -
  have a: "VotingPowerFromStake 16 5 = Inr 1" and b: "VotingPowerFromStake 16 160 = Inr 10"
    by (simp_all add: VotingPowerFromStake_def Quo_def IsInt64_def ToBigInt_def Int64_def)
  from VotingPowerFromStake_positive[OF a] VotingPowerFromStake_positive[OF b] a b
  show ?thesis by simp
qed

section \<open>Text encodings of roles and committee kinds\<close>

text \<open>
  Claim C3 as stated asks that every defined value survive encoding and decoding.
  It fails at the Invalid values: \<open>MarshalText\<close> encodes \<open>RoleInvalid\<close> and
  \<open>KindInvalid\<close> as \<open>invalid\<close>, and \<open>UnmarshalText\<close> rejects that text with an error,
  leaving the receiver as it was.
\<close>

theorem Invalid_text_not_decoded:
  "Role_MarshalText RoleInvalid = Inr ''invalid''
   \<and> Role_UnmarshalText RoleInvalid ''invalid'' = (Some (ErrInvalidRoleText ''invalid''), RoleInvalid)
   \<and> Role_UnmarshalText RoleWorker ''invalid'' = (Some (ErrInvalidRoleText ''invalid''), RoleWorker)
   \<and> CommitteeKind_MarshalText KindInvalid = Inr ''invalid''
   \<and> CommitteeKind_UnmarshalText KindInvalid ''invalid''
       = (Some (ErrInvalidRoleText ''invalid''), KindInvalid)
   \<and> CommitteeKind_UnmarshalText KindComputeExecutor ''invalid''
       = (Some (ErrInvalidRoleText ''invalid''), KindComputeExecutor)"
  by (simp add: Role_MarshalText_def Role_UnmarshalText_def CommitteeKind_MarshalText_def
      CommitteeKind_UnmarshalText_def RoleInvalidName_def RoleWorkerName_def
      RoleBackupWorkerName_def KindInvalidName_def KindComputeExecutorName_def)

text \<open>
  Claim C3, amended. \<open>MarshalText\<close> succeeds on every defined value of \<open>Role\<close> and
  of \<open>CommitteeKind\<close>. For \<open>RoleWorker\<close>, \<open>RoleBackupWorker\<close> and
  \<open>KindComputeExecutor\<close>, \<open>UnmarshalText\<close> of the marshalled text succeeds and gives
  the value back, and marshalling a successfully decoded value gives the text back.
  \<open>UnmarshalText\<close> fails with an error, leaving the receiver unchanged, on every
  other text: on every text that encodes no defined value, and on \<open>invalid\<close> too.
\<close>

theorem text_codec:
  "(r \<in> {RoleInvalid, RoleWorker, RoleBackupWorker} \<longrightarrow> (\<exists>text. Role_MarshalText r = Inr text))
   \<and> (r \<in> {RoleWorker, RoleBackupWorker} \<longrightarrow>
        (\<exists>text. Role_MarshalText r = Inr text \<and> Role_UnmarshalText r0 text = (None, r)))
   \<and> (text \<in> {RoleWorkerName, RoleBackupWorkerName} \<longrightarrow>
        (\<exists>r'. Role_UnmarshalText r0 text = (None, r') \<and> Role_MarshalText r' = Inr text))
   \<and> (text \<notin> {RoleWorkerName, RoleBackupWorkerName} \<longrightarrow>
        Role_UnmarshalText r0 text = (Some (ErrInvalidRoleText text), r0))
   \<and> Role_UnmarshalText r0 RoleInvalidName = (Some (ErrInvalidRoleText RoleInvalidName), r0)
   \<and> (k \<in> {KindInvalid, KindComputeExecutor} \<longrightarrow> (\<exists>text. CommitteeKind_MarshalText k = Inr text))
   \<and> (k = KindComputeExecutor \<longrightarrow>
        (\<exists>text. CommitteeKind_MarshalText k = Inr text
            \<and> CommitteeKind_UnmarshalText k0 text = (None, k)))
   \<and> (text = KindComputeExecutorName \<longrightarrow>
        (\<exists>k'. CommitteeKind_UnmarshalText k0 text = (None, k')
            \<and> CommitteeKind_MarshalText k' = Inr text))
   \<and> (text \<noteq> KindComputeExecutorName \<longrightarrow>
        CommitteeKind_UnmarshalText k0 text = (Some (ErrInvalidRoleText text), k0))
   \<and> CommitteeKind_UnmarshalText k0 KindInvalidName
        = (Some (ErrInvalidRoleText KindInvalidName), k0)"
proof -
  have names: "RoleInvalidName \<noteq> RoleWorkerName" "RoleInvalidName \<noteq> RoleBackupWorkerName"
    "RoleWorkerName \<noteq> RoleBackupWorkerName" "KindInvalidName \<noteq> KindComputeExecutorName"
    by (simp_all add: RoleInvalidName_def RoleWorkerName_def RoleBackupWorkerName_def
        KindInvalidName_def KindComputeExecutorName_def)
  have vals: "RoleInvalid \<noteq> RoleWorker" "RoleInvalid \<noteq> RoleBackupWorker"
    "RoleWorker \<noteq> RoleBackupWorker" "KindInvalid \<noteq> KindComputeExecutor"
    by (simp_all add: RoleInvalid_def RoleWorker_def RoleBackupWorker_def
        KindInvalid_def KindComputeExecutor_def)
  have role: "(r \<in> {RoleInvalid, RoleWorker, RoleBackupWorker} \<longrightarrow> (\<exists>text. Role_MarshalText r = Inr text))
   \<and> (r \<in> {RoleWorker, RoleBackupWorker} \<longrightarrow>
        (\<exists>text. Role_MarshalText r = Inr text \<and> Role_UnmarshalText r0 text = (None, r)))
   \<and> (text \<in> {RoleWorkerName, RoleBackupWorkerName} \<longrightarrow>
        (\<exists>r'. Role_UnmarshalText r0 text = (None, r') \<and> Role_MarshalText r' = Inr text))
   \<and> (text \<notin> {RoleWorkerName, RoleBackupWorkerName} \<longrightarrow>
        Role_UnmarshalText r0 text = (Some (ErrInvalidRoleText text), r0))
   \<and> Role_UnmarshalText r0 RoleInvalidName = (Some (ErrInvalidRoleText RoleInvalidName), r0)"
    using names vals by (auto simp: Role_MarshalText_def Role_UnmarshalText_def)
  have kind: "(k \<in> {KindInvalid, KindComputeExecutor} \<longrightarrow> (\<exists>text. CommitteeKind_MarshalText k = Inr text))
   \<and> (k = KindComputeExecutor \<longrightarrow>
        (\<exists>text. CommitteeKind_MarshalText k = Inr text
            \<and> CommitteeKind_UnmarshalText k0 text = (None, k)))
   \<and> (text = KindComputeExecutorName \<longrightarrow>
        (\<exists>k'. CommitteeKind_UnmarshalText k0 text = (None, k')
            \<and> CommitteeKind_MarshalText k' = Inr text))
   \<and> (text \<noteq> KindComputeExecutorName \<longrightarrow>
        CommitteeKind_UnmarshalText k0 text = (Some (ErrInvalidRoleText text), k0))
   \<and> CommitteeKind_UnmarshalText k0 KindInvalidName
        = (Some (ErrInvalidRoleText KindInvalidName), k0)"
    using names vals by (auto simp: CommitteeKind_MarshalText_def CommitteeKind_UnmarshalText_def)
  from role kind show ?thesis by blast
qed

theorem text_codec_witness:
  "Role_MarshalText RoleBackupWorker = Inr ''backup-worker''
   \<and> Role_UnmarshalText RoleInvalid ''backup-worker'' = (None, RoleBackupWorker)
   \<and> Role_UnmarshalText RoleInvalid ''Worker'' = (Some (ErrInvalidRoleText ''Worker''), RoleInvalid)
   \<and> CommitteeKind_MarshalText KindComputeExecutor = Inr ''executor''
   \<and> CommitteeKind_UnmarshalText KindInvalid ''executor'' = (None, KindComputeExecutor)
   \<and> CommitteeKind_UnmarshalText KindInvalid ''Worker''
        = (Some (ErrInvalidRoleText ''Worker''), KindInvalid)"
  using text_codec[of RoleBackupWorker RoleInvalid "''Worker''" KindComputeExecutor KindInvalid]
    text_codec[of RoleBackupWorker RoleInvalid "''backup-worker''" KindComputeExecutor KindInvalid]
    text_codec[of RoleBackupWorker RoleInvalid "''executor''" KindComputeExecutor KindInvalid]
  by (simp add: RoleWorkerName_def RoleBackupWorkerName_def KindComputeExecutorName_def
      Role_MarshalText_def CommitteeKind_MarshalText_def RoleInvalid_def RoleWorker_def
      RoleBackupWorker_def KindInvalid_def KindComputeExecutor_def)

section \<open>Applying consensus parameter changes\<close>

text \<open>
  Claim C7. \<open>Apply\<close> overwrites \<open>MinValidators\<close> exactly when the change carries a
  \<open>MinValidators\<close> and \<open>MaxValidators\<close> exactly when it carries a \<open>MaxValidators\<close>;
  a parameter whose field is absent keeps its value, and so does every other field
  of the consensus parameters.
\<close>

theorem Apply_frame:
  "fst (Apply c params) = None
   \<and> MinValidators (snd (Apply c params)) =
        (case ConsensusParameterChanges.MinValidators c of
           None \<Rightarrow> MinValidators params | Some v \<Rightarrow> v)
   \<and> MaxValidators (snd (Apply c params)) =
        (case ConsensusParameterChanges.MaxValidators c of
           None \<Rightarrow> MaxValidators params | Some v \<Rightarrow> v)
   \<and> MaxValidatorsPerEntity (snd (Apply c params)) = MaxValidatorsPerEntity params
   \<and> DebugBypassStake (snd (Apply c params)) = DebugBypassStake params
   \<and> RewardFactorEpochElectionAny (snd (Apply c params)) = RewardFactorEpochElectionAny params
   \<and> DebugForceElect (snd (Apply c params)) = DebugForceElect params
   \<and> DebugAllowWeakAlpha (snd (Apply c params)) = DebugAllowWeakAlpha params"
  by (simp add: Apply_def Let_def split: option.split)

theorem Apply_frame_witness:
  "Apply \<lparr>ConsensusParameterChanges.MinValidators = Some 4,
          ConsensusParameterChanges.MaxValidators = None\<rparr>
         \<lparr>MinValidators = 1, MaxValidators = 100, MaxValidatorsPerEntity = 2,
          DebugBypassStake = False, RewardFactorEpochElectionAny = 7,
          DebugForceElect = Map.empty, DebugAllowWeakAlpha = True\<rparr>
   = (None, \<lparr>MinValidators = 4, MaxValidators = 100, MaxValidatorsPerEntity = 2,
             DebugBypassStake = False, RewardFactorEpochElectionAny = 7,
             DebugForceElect = Map.empty, DebugAllowWeakAlpha = True\<rparr>)"
  using Apply_frame
     [of "\<lparr>ConsensusParameterChanges.MinValidators = Some 4,
           ConsensusParameterChanges.MaxValidators = None\<rparr>"
         "\<lparr>MinValidators = 1, MaxValidators = 100, MaxValidatorsPerEntity = 2,
          DebugBypassStake = False, RewardFactorEpochElectionAny = 7,
          DebugForceElect = Map.empty, DebugAllowWeakAlpha = True\<rparr>"]
  by (simp add: prod_eq_iff)

text \<open>
  Claim C8. \<open>Apply\<close> returns no error on any input, and it does not check that
  \<open>MinValidators\<close> stays at most \<open>MaxValidators\<close>: from consistent parameters some
  change leads to a pair with \<open>MinValidators\<close> above \<open>MaxValidators\<close>, the call
  succeeding all the same (raising the minimum from 1 to 10 under a maximum of 5).
\<close>

theorem Apply_no_validation:
  "(\<forall>c params. fst (Apply c params) = None)
   \<and> (\<exists>c params. MinValidators params \<le> MaxValidators params
          \<and> fst (Apply c params) = None
          \<and> MaxValidators (snd (Apply c params)) < MinValidators (snd (Apply c params)))
   \<and> Apply \<lparr>ConsensusParameterChanges.MinValidators = Some 10,
            ConsensusParameterChanges.MaxValidators = None\<rparr>
           \<lparr>MinValidators = 1, MaxValidators = 5, MaxValidatorsPerEntity = 1,
            DebugBypassStake = False, RewardFactorEpochElectionAny = 0,
            DebugForceElect = Map.empty, DebugAllowWeakAlpha = False\<rparr>
      = (None, \<lparr>MinValidators = 10, MaxValidators = 5, MaxValidatorsPerEntity = 1,
                DebugBypassStake = False, RewardFactorEpochElectionAny = 0,
                DebugForceElect = Map.empty, DebugAllowWeakAlpha = False\<rparr>)"
proof -
  have all: "\<forall>c params. fst (Apply c params) = None"
    by (simp add: Apply_def Let_def)
  have ex: "Apply \<lparr>ConsensusParameterChanges.MinValidators = Some 10,
            ConsensusParameterChanges.MaxValidators = None\<rparr>
           \<lparr>MinValidators = 1, MaxValidators = 5, MaxValidatorsPerEntity = 1,
            DebugBypassStake = False, RewardFactorEpochElectionAny = 0,
            DebugForceElect = Map.empty, DebugAllowWeakAlpha = False\<rparr>
      = (None, \<lparr>MinValidators = 10, MaxValidators = 5, MaxValidatorsPerEntity = 1,
                DebugBypassStake = False, RewardFactorEpochElectionAny = 0,
                DebugForceElect = Map.empty, DebugAllowWeakAlpha = False\<rparr>)"
    by (simp add: Apply_def)
  have "\<exists>c params. MinValidators params \<le> MaxValidators params
          \<and> fst (Apply c params) = None
          \<and> MaxValidators (snd (Apply c params)) < MinValidators (snd (Apply c params))"
    apply (rule exI[of _ "\<lparr>ConsensusParameterChanges.MinValidators = Some 10,
            ConsensusParameterChanges.MaxValidators = None\<rparr>"])
    apply (rule exI[of _ "\<lparr>MinValidators = 1, MaxValidators = 5, MaxValidatorsPerEntity = 1,
            DebugBypassStake = False, RewardFactorEpochElectionAny = 0,
            DebugForceElect = Map.empty, DebugAllowWeakAlpha = False\<rparr>"])
    apply (simp add: ex)
    done
  with all ex show ?thesis by blast
qed

theorem Apply_no_validation_witness:
  "fst (Apply \<lparr>ConsensusParameterChanges.MinValidators = Some 10,
               ConsensusParameterChanges.MaxValidators = Some 5\<rparr>
              \<lparr>MinValidators = 1, MaxValidators = 20, MaxValidatorsPerEntity = 1,
               DebugBypassStake = True, RewardFactorEpochElectionAny = 3,
               DebugForceElect = Map.empty, DebugAllowWeakAlpha = False\<rparr>) = None"
  using Apply_no_validation by blast

end
